theory Spec2Isabelle
  imports Main "HOL-Library.List_Lexorder" "HOL-Library.AList"
begin

section \<open>Python strings\<close>

text \<open>
  A Python \<open>str\<close> is a sequence of Unicode code points; it is modelled as a list of
  natural numbers, so that \<open>len\<close>, slicing and the regular expressions count code
  points as Python does.  \<open>py\<close> embeds an ASCII literal.
\<close>

type_synonym pystr = "nat list"

definition py :: "string \<Rightarrow> pystr" where
  "py s = map of_char s"

text \<open>
  The class \<open>\d\<close> of a \<open>str\<close> pattern is the general category Nd.  The table lists
  its ranges (Unicode 14, the database of CPython 3.11).
\<close>

definition Nd_ranges :: "(nat \<times> nat) list" where
  "Nd_ranges =
    [(48, 57), (1632, 1641), (1776, 1785), (1984, 1993), (2406, 2415), (2534, 2543),
     (2662, 2671), (2790, 2799), (2918, 2927), (3046, 3055), (3174, 3183), (3302, 3311),
     (3430, 3439), (3558, 3567), (3664, 3673), (3792, 3801), (3872, 3881), (4160, 4169),
     (4240, 4249), (6112, 6121), (6160, 6169), (6470, 6479), (6608, 6617), (6784, 6793),
     (6800, 6809), (6992, 7001), (7088, 7097), (7232, 7241), (7248, 7257), (42528, 42537),
     (43216, 43225), (43264, 43273), (43472, 43481), (43504, 43513), (43600, 43609),
     (44016, 44025), (65296, 65305), (66720, 66729), (68912, 68921), (69734, 69743),
     (69872, 69881), (69942, 69951), (70096, 70105), (70384, 70393), (70736, 70745),
     (70864, 70873), (71248, 71257), (71360, 71369), (71472, 71481), (71904, 71913),
     (72016, 72025), (72784, 72793), (73040, 73049), (73120, 73129), (92768, 92777),
     (92864, 92873), (93008, 93017), (120782, 120831), (123200, 123209), (123632, 123641),
     (125264, 125273), (130032, 130041)]"

definition is_digit :: "nat \<Rightarrow> bool" where
  "is_digit c = list_ex (\<lambda>(lo, hi). lo \<le> c \<and> c \<le> hi) Nd_ranges"

text \<open>The code points that \<open>str.strip()\<close> removes (those with \<open>str.isspace\<close>).\<close>

definition whitespace :: "nat list" where
  "whitespace =
    [9, 10, 11, 12, 13, 28, 29, 30, 31, 32, 133, 160, 5760, 8192, 8193, 8194, 8195, 8196,
     8197, 8198, 8199, 8200, 8201, 8202, 8232, 8233, 8239, 8287, 12288]"

definition is_space :: "nat \<Rightarrow> bool" where
  "is_space c = (c \<in> set whitespace)"

text \<open>\<open>s.strip(chars)\<close>: drop the characters of a class at both ends.\<close>

definition strip_chars :: "(nat \<Rightarrow> bool) \<Rightarrow> pystr \<Rightarrow> pystr" where
  "strip_chars p s = rev (dropWhile p (rev (dropWhile p s)))"

definition strip :: "pystr \<Rightarrow> pystr" where
  "strip s = strip_chars is_space s"

text \<open>\<open>s.strip(" ,")\<close> of \<open>parse_etymology\<close>.\<close>

definition strip_space_comma :: "pystr \<Rightarrow> pystr" where
  "strip_space_comma s = strip_chars (\<lambda>c. c = 32 \<or> c = 44) s"

text \<open>\<open>sep.join(parts)\<close>.\<close>

fun join :: "pystr \<Rightarrow> pystr list \<Rightarrow> pystr" where
  "join sep [] = []"
| "join sep [x] = x"
| "join sep (x # y # ys) = x @ sep @ join sep (y # ys)"

text \<open>\<open>s.split(",")\<close>: the pieces between commas; never an empty list.\<close>

fun split_comma :: "pystr \<Rightarrow> pystr list" where
  "split_comma [] = [[]]"
| "split_comma (c # cs) =
     (if c = 44 then [] # split_comma cs
      else (case split_comma cs of [] \<Rightarrow> [[c]] | p # ps \<Rightarrow> (c # p) # ps))"

text \<open>\<open>s.startswith(p)\<close> and \<open>s.endswith(p)\<close>.\<close>

definition startswith :: "pystr \<Rightarrow> pystr \<Rightarrow> bool" where
  "startswith s p = (take (length p) s = p)"

definition endswith :: "pystr \<Rightarrow> pystr \<Rightarrow> bool" where
  "endswith s p = (length p \<le> length s \<and> drop (length s - length p) s = p)"

subsection \<open>The regular expressions of the module\<close>

text \<open>
  \<open>DIGITS_TRAIL_RE = \d+$\<close>, used through \<open>sub("", s)\<close>.  Without the MULTILINE flag
  \<open>$\<close> matches at the end of the string and also just before a line feed that ends the
  string, so the digit run removed is the one at the end, or the one before a final
  line feed.
\<close>

definition rstrip_digits :: "pystr \<Rightarrow> pystr" where
  "rstrip_digits s = rev (dropWhile is_digit (rev s))"

definition DIGITS_TRAIL_sub :: "pystr \<Rightarrow> pystr" where
  "DIGITS_TRAIL_sub s =
     (if s \<noteq> [] \<and> last s = 10 then rstrip_digits (butlast s) @ [10] else rstrip_digits s)"

text \<open>
  \<open>SUFFIX_RE\<close>: a hyphen, then one to six characters of the class made of A-Z, a-z and
  the three Danish vowels in both cases (code points 230, 248, 229, 198, 216 and 197),
  then \<open>$\<close>; used through \<open>match\<close>.  \<open>hyphen_letters\<close> is
  the pattern read as a whole-string match; \<open>SUFFIX_RE_match\<close> adds what \<open>$\<close> also
  accepts, one line feed after the letters.
\<close>

definition suffix_letter :: "nat \<Rightarrow> bool" where
  "suffix_letter c =
     ((65 \<le> c \<and> c \<le> 90) \<or> (97 \<le> c \<and> c \<le> 122) \<or> c \<in> set [230, 248, 229, 198, 216, 197])"

definition hyphen_letters :: "pystr \<Rightarrow> bool" where
  "hyphen_letters f =
     (case f of [] \<Rightarrow> False
      | c # r \<Rightarrow> c = 45 \<and> 1 \<le> length r \<and> length r \<le> 6 \<and> list_all suffix_letter r)"

definition SUFFIX_RE_match :: "pystr \<Rightarrow> bool" where
  "SUFFIX_RE_match f =
     (hyphen_letters f \<or> (f \<noteq> [] \<and> last f = 10 \<and> hyphen_letters (butlast f)))"

section \<open>Suffix expansion\<close>

text \<open>
  \<open>transform_wordforms(headword, forms)\<close>: the loop appends to \<open>out\<close>, which the model
  carries as an accumulator.
\<close>

fun transform_loop :: "pystr \<Rightarrow> pystr list \<Rightarrow> pystr list \<Rightarrow> pystr list" where
  "transform_loop headword out [] = out"
| "transform_loop headword out (f # fs) =
     (if SUFFIX_RE_match f then transform_loop headword (out @ [headword @ drop 1 f]) fs
      else transform_loop headword (out @ [f]) fs)"

definition transform_wordforms :: "pystr \<Rightarrow> pystr list \<Rightarrow> pystr list" where
  "transform_wordforms headword forms = transform_loop headword [] forms"

section \<open>The parsed document\<close>

text \<open>
  The tree BeautifulSoup builds: text nodes (\<open>NavigableString\<close>) and elements
  (\<open>Tag\<close>) with their name, the attributes the module reads (\<open>id\<close>, the list of
  classes, \<open>href\<close>) and their children.  Comments and the other special string
  classes are outside the model.  The arguments of \<open>Tag\<close> are, in this order, the
  name, the id if any, the classes, the \<open>href\<close> if any and the children.
\<close>

datatype node =
    Text pystr
  | Tag pystr "pystr option" "pystr list" "pystr option" "node list"

text \<open>\<open>tag.contents\<close>, also what \<open>tag.children\<close> iterates over.\<close>

definition contents :: "node \<Rightarrow> node list" where
  "contents n = (case n of Text s \<Rightarrow> [] | Tag nm i c h ks \<Rightarrow> ks)"

text \<open>
  A node is used together with its place in the tree: its ancestors (nearest first)
  and the siblings that follow it.  The ancestors are what a descendant combinator of
  a CSS selector looks at, also above the element \<open>select\<close> is called on; only
  their names and attributes are read, so they are kept without their children.  The
  following siblings are what \<open>next_sibling\<close> and \<open>find_next_sibling\<close> walk.
\<close>

definition shell :: "node \<Rightarrow> node" where
  "shell n = (case n of Text s \<Rightarrow> Text s | Tag nm i c h ks \<Rightarrow> Tag nm i c h [])"

type_synonym loc = "node list \<times> node \<times> node list"

definition l_anc :: "loc \<Rightarrow> node list" where
  "l_anc l = fst l"

definition l_node :: "loc \<Rightarrow> node" where
  "l_node l = fst (snd l)"

definition l_sibs :: "loc \<Rightarrow> node list" where
  "l_sibs l = snd (snd l)"

text \<open>The nodes of a child list and everything below them, in document order.\<close>

fun locs :: "node list \<Rightarrow> node list \<Rightarrow> loc list" where
  "locs anc [] = []"
| "locs anc (Text s # xs) = (anc, Text s, xs) # locs anc xs"
| "locs anc (Tag n i c h ks # xs) =
     (anc, Tag n i c h ks, xs) # locs (Tag n i c h [] # anc) ks @ locs anc xs"

text \<open>\<open>tag.descendants\<close>.\<close>

definition descendants :: "loc \<Rightarrow> loc list" where
  "descendants l = locs (shell (l_node l) # l_anc l) (contents (l_node l))"

text \<open>
  The \<open>BeautifulSoup\<close> object is itself a tag, named \<open>[document]\<close>, whose children
  are the top-level nodes of the page.
\<close>

type_synonym soup = "node list"

definition root :: "soup \<Rightarrow> loc" where
  "root doc = ([], Tag (py ''[document]'') None [] None doc, [])"

subsection \<open>Text of a node\<close>

text \<open>The text nodes below a node, in document order.\<close>

fun strings :: "node \<Rightarrow> pystr list" where
  "strings (Text s) = [s]"
| "strings (Tag n i c h ks) = concat (map strings ks)"

text \<open>
  \<open>node.get_text(sep, strip=...)\<close>: with \<open>strip\<close>, every piece is stripped and the
  pieces left empty are skipped, before the pieces are joined.
\<close>

definition get_text :: "pystr \<Rightarrow> bool \<Rightarrow> node \<Rightarrow> pystr" where
  "get_text sep strp n =
     join sep (if strp then filter (\<lambda>s. s \<noteq> []) (map strip (strings n)) else strings n)"

text \<open>\<open>tag.string\<close>: the text of a tag whose subtree is a single chain down to one text node.\<close>

fun tag_string :: "node \<Rightarrow> pystr option" where
  "tag_string (Text s) = Some s"
| "tag_string (Tag n i c h [k]) = tag_string k"
| "tag_string (Tag n i c h ks) = None"

definition is_tag :: "node \<Rightarrow> bool" where
  "is_tag n = (case n of Text s \<Rightarrow> False | Tag nm i c h ks \<Rightarrow> True)"

text \<open>\<open>cls in node.get("class", [])\<close>, false on a text node.\<close>

definition has_class :: "pystr \<Rightarrow> node \<Rightarrow> bool" where
  "has_class cls n = (case n of Text s \<Rightarrow> False | Tag nm i c h ks \<Rightarrow> cls \<in> set c)"

text \<open>\<open>node.name\<close> of a tag.\<close>

definition tname :: "node \<Rightarrow> pystr" where
  "tname n = (case n of Text s \<Rightarrow> [] | Tag nm i c h ks \<Rightarrow> nm)"

text \<open>\<open>node["href"]\<close>, read only where the selector has checked the attribute.\<close>

definition get_href :: "node \<Rightarrow> pystr option" where
  "get_href n = (case n of Text s \<Rightarrow> None | Tag nm i c h ks \<Rightarrow> h)"

text \<open>\<open>node.get("id", "")\<close>.\<close>

definition get_id :: "node \<Rightarrow> pystr" where
  "get_id n = (case n of Text s \<Rightarrow> [] | Tag nm i c h ks \<Rightarrow> (case i of None \<Rightarrow> [] | Some v \<Rightarrow> v))"

subsection \<open>Selectors\<close>

text \<open>
  A compound selector as the module writes them: an optional tag name, an optional
  \<open>#id\<close>, classes, \<open>[id^=...]\<close> and \<open>[href$=...]\<close>.  A selector is a chain of compounds
  joined by descendant combinators, written from the outermost to the innermost.
\<close>

datatype compound =
  Compound (c_name: "pystr option") (c_id: "pystr option") (c_classes: "pystr list")
    (c_id_prefix: "pystr option") (c_href_suffix: "pystr option")

definition opt_holds :: "'a option \<Rightarrow> ('a \<Rightarrow> bool) \<Rightarrow> bool" where
  "opt_holds v p = (case v of None \<Rightarrow> True | Some x \<Rightarrow> p x)"

fun matches :: "compound \<Rightarrow> node \<Rightarrow> bool" where
  "matches cp (Text s) = False"
| "matches cp (Tag n i c h ks) =
     (opt_holds (c_name cp) (\<lambda>x. n = x) \<and>
      opt_holds (c_id cp) (\<lambda>x. i = Some x) \<and>
      list_all (\<lambda>x. x \<in> set c) (c_classes cp) \<and>
      opt_holds (c_id_prefix cp) (\<lambda>x. (case i of None \<Rightarrow> False | Some v \<Rightarrow> x \<noteq> [] \<and> startswith v x)) \<and>
      opt_holds (c_href_suffix cp) (\<lambda>x. (case h of None \<Rightarrow> False | Some v \<Rightarrow> x \<noteq> [] \<and> endswith v x)))"

text \<open>The outer compounds (innermost first) against the ancestors (nearest first).\<close>

fun match_chain :: "compound list \<Rightarrow> node list \<Rightarrow> bool" where
  "match_chain [] anc = True"
| "match_chain (cp # cps) [] = False"
| "match_chain (cp # cps) (a # anc) =
     ((matches cp a \<and> match_chain cps anc) \<or> match_chain (cp # cps) anc)"

definition matches_sel :: "compound list \<Rightarrow> loc \<Rightarrow> bool" where
  "matches_sel sel l =
     (case rev sel of [] \<Rightarrow> False
      | cp # outer \<Rightarrow> matches cp (l_node l) \<and> match_chain outer (l_anc l))"

text \<open>\<open>tag.select(sel)\<close> and \<open>tag.select_one(sel)\<close>.\<close>

definition select :: "compound list \<Rightarrow> loc \<Rightarrow> loc list" where
  "select sel l = filter (matches_sel sel) (descendants l)"

definition select_one :: "compound list \<Rightarrow> loc \<Rightarrow> loc option" where
  "select_one sel l = List.find (matches_sel sel) (descendants l)"

text \<open>
  \<open>tag.find_all(name, class_=...)\<close> and \<open>tag.find(...)\<close> test the descendants one by
  one, without looking at ancestors; \<open>recursive=False\<close> keeps to the children.
\<close>

definition find_all :: "(node \<Rightarrow> bool) \<Rightarrow> loc \<Rightarrow> loc list" where
  "find_all p l = filter (\<lambda>d. p (l_node d)) (descendants l)"

definition find_one :: "(node \<Rightarrow> bool) \<Rightarrow> loc \<Rightarrow> loc option" where
  "find_one p l = List.find (\<lambda>d. p (l_node d)) (descendants l)"

fun child_locs :: "node list \<Rightarrow> node list \<Rightarrow> loc list" where
  "child_locs anc [] = []"
| "child_locs anc (k # ks) = (anc, k, ks) # child_locs anc ks"

definition find_all_children :: "(node \<Rightarrow> bool) \<Rightarrow> loc \<Rightarrow> loc list" where
  "find_all_children p l =
     filter (\<lambda>d. p (l_node d)) (child_locs (shell (l_node l) # l_anc l) (contents (l_node l)))"

text \<open>
  \<open>tag.find_next_sibling(...)\<close>: the first of the following siblings that is a
  tag passing the test, with the siblings after it.
\<close>

fun find_next_sibling :: "(node \<Rightarrow> bool) \<Rightarrow> node list \<Rightarrow> (node \<times> node list) option" where
  "find_next_sibling p [] = None"
| "find_next_sibling p (n # ns) =
     (if is_tag n \<and> p n then Some (n, ns) else find_next_sibling p ns)"

text \<open>The compounds of the module: \<open>name.class\<close>, \<open>name\<close>, \<open>#id\<close>, \<open>name.class1.class2\<close>.\<close>

definition tag_class :: "string \<Rightarrow> string \<Rightarrow> compound" where
  "tag_class n c = Compound (Some (py n)) None [py c] None None"

definition tag_only :: "string \<Rightarrow> compound" where
  "tag_only n = Compound (Some (py n)) None [] None None"

definition id_only :: "string \<Rightarrow> compound" where
  "id_only i = Compound None (Some (py i)) [] None None"

definition tag_class2 :: "string \<Rightarrow> string \<Rightarrow> string \<Rightarrow> compound" where
  "tag_class2 n c d = Compound (Some (py n)) None [py c, py d] None None"

section \<open>Link cleaning\<close>

text \<open>The set \<open>UNWANTED_TEXTS\<close>; the third string has the letter 230 after its \<open>L\<close>.\<close>

definition UNWANTED_TEXTS :: "pystr set" where
  "UNWANTED_TEXTS =
     {py ''...vis mere'', py ''...vis mindre'',
      py ''L'' @ [230] @ py ''s mere om Den Danske Begrebsordbog''}"

text \<open>\<open>clean_links(a_tags)\<close>, the list \<open>out\<close> carried as an accumulator.\<close>

fun clean_loop :: "pystr list \<Rightarrow> node list \<Rightarrow> pystr list" where
  "clean_loop out [] = out"
| "clean_loop out (a # as) =
     (let txt = get_text [] True a in
      if txt \<in> UNWANTED_TEXTS then clean_loop out as
      else (let txt' = DIGITS_TRAIL_sub txt in
            if txt' \<noteq> [] then clean_loop (out @ [txt']) as else clean_loop out as))"

definition clean_links :: "node list \<Rightarrow> pystr list" where
  "clean_links a_tags = clean_loop [] a_tags"

section \<open>Output values\<close>

text \<open>
  The extractors build the values that \<open>json.dump\<close> writes: \<open>None\<close>, strings, lists
  and dictionaries.  A dictionary keeps its keys in insertion order, so it is an
  association list; a key that was never set is absent from the list.
\<close>

datatype json = JNull | JStr pystr | JList "json list" | JDict "(pystr \<times> json) list"

definition opt_str :: "pystr option \<Rightarrow> json" where
  "opt_str v = (case v of None \<Rightarrow> JNull | Some s \<Rightarrow> JStr s)"

definition dict_keys :: "json \<Rightarrow> pystr list" where
  "dict_keys j = (case j of JDict kvs \<Rightarrow> map fst kvs | _ \<Rightarrow> [])"

definition dict_get :: "json \<Rightarrow> pystr \<Rightarrow> json option" where
  "dict_get j k = (case j of JDict kvs \<Rightarrow> map_of kvs k | _ \<Rightarrow> None)"

text \<open>
  The only exception the extractors can raise is the \<open>AttributeError\<close> of calling
  \<open>get_text\<close> on the \<open>None\<close> that \<open>select_one\<close> returned.
\<close>

datatype error = AttributeError

text \<open>What the module prints, one constructor per \<open>print\<close> call, with its arguments.\<close>

datatype line =
    Note pystr
  | Warning pystr pystr
  | Parsed nat
  | Skipped nat
  | SkippedName pystr

section \<open>Word formation\<close>

text \<open>A truthy string sibling: the test \<open>sib and isinstance(sib, str)\<close>.\<close>

definition nonempty_text :: "node \<Rightarrow> bool" where
  "nonempty_text n = (case n of Text s \<Rightarrow> s \<noteq> [] | Tag nm i c h ks \<Rightarrow> False)"

definition text_val :: "node \<Rightarrow> pystr" where
  "text_val n = (case n of Text s \<Rightarrow> s | Tag nm i c h ks \<Rightarrow> [])"

text \<open>The loop over \<open>inline.children\<close>: one item per \<open>a\<close> child, with its text tail.\<close>

fun inline_items :: "node list \<Rightarrow> pystr list" where
  "inline_items [] = []"
| "inline_items (child # rest) =
     (if is_tag child \<and> tname child = py ''a'' then
        (let form = get_text [] True child;
             tail = strip (concat (map text_val (takeWhile nonempty_text rest)))
         in (if tail \<noteq> [] then form @ [32] @ tail else form) # inline_items rest)
      else inline_items rest)"

fun orddannelser_loop :: "(pystr \<times> json) list \<Rightarrow> loc list \<Rightarrow> error + (pystr \<times> json) list" where
  "orddannelser_loop result [] = Inr result"
| "orddannelser_loop result (box # boxes) =
     (case select_one [tag_class ''span'' ''stempel''] box of
        None \<Rightarrow> Inl AttributeError
      | Some st \<Rightarrow>
          (let cat = get_text [] True (l_node st);
               items = (case select_one [tag_class ''span'' ''inlineList''] box of
                          None \<Rightarrow> []
                        | Some inline \<Rightarrow> inline_items (contents (l_node inline)))
           in orddannelser_loop (AList.update cat (JList (map JStr items)) result) boxes))"

definition parse_orddannelser :: "soup \<Rightarrow> error + json" where
  "parse_orddannelser doc =
     (case select_one [id_only ''content-orddannelser''] (root doc) of
        None \<Rightarrow> Inr (JDict [])
      | Some cont \<Rightarrow>
          (case orddannelser_loop [] (find_all (matches (tag_class ''div'' ''definitionBox'')) cont) of
             Inl e \<Rightarrow> Inl e
           | Inr result \<Rightarrow> Inr (JDict result)))"

section \<open>Pronunciation\<close>

text \<open>
  The backward scan \<open>for prev in reversed(children[:idx])\<close>; the argument is the
  reversed prefix.
\<close>

fun find_label :: "node list \<Rightarrow> pystr option" where
  "find_label [] = None"
| "find_label (prev # ps) =
     (if \<not> is_tag prev then find_label ps
      else if has_class (py ''diskret'') prev then Some (get_text [32] True prev)
      else if has_class (py ''lydskrift'') prev then None
      else find_label ps)"

text \<open>The body of the loop over \<open>enumerate(children)\<close>, for the index \<open>idx\<close>.\<close>

definition udtale_entry :: "node list \<Rightarrow> node list \<Rightarrow> nat \<Rightarrow> json list" where
  "udtale_entry anc children idx =
     (let node = children ! idx in
      if \<not> (is_tag node \<and> has_class (py ''lydskrift'') node) then []
      else
        (let ipa = get_text [32] True node;
             a_mp3 = select_one [Compound (Some (py ''a'')) None [] None (Some (py ''.mp3''))]
                       (anc, node, drop (Suc idx) children);
             audio = (case a_mp3 of None \<Rightarrow> None | Some a \<Rightarrow> get_href (l_node a));
             label = find_label (rev (take idx children))
         in [JDict [(py ''ipa'', JStr ipa), (py ''audio'', opt_str audio),
                    (py ''label'', opt_str label)]]))"

definition udtale_children :: "node list \<Rightarrow> node list \<Rightarrow> json list" where
  "udtale_children anc children =
     concat (map (udtale_entry anc children) [0..<length children])"

definition parse_udtale :: "soup \<Rightarrow> pystr \<Rightarrow> json list \<times> line list" where
  "parse_udtale doc fn =
     (case select_one [Compound (Some (py ''div'')) (Some (py ''id-udt'')) [] None None] (root doc) of
        None \<Rightarrow> ([], [Note fn])
      | Some container \<Rightarrow>
          (case select_one [tag_class ''span'' ''tekstmedium''] container of
             None \<Rightarrow> ([], [])
           | Some tm \<Rightarrow>
               (udtale_children (shell (l_node tm) # l_anc tm) (contents (l_node tm)), [])))"

section \<open>Word forms and etymology\<close>

text \<open>
  \<open>soup.find("span", class_="stempel", string=...)\<close>: a \<open>span\<close> of that class whose
  \<open>.string\<close> is the given text.
\<close>

definition stempel_with :: "pystr \<Rightarrow> node \<Rightarrow> bool" where
  "stempel_with txt n = (matches (tag_class ''span'' ''stempel'') n \<and> tag_string n = Some txt)"

definition parse_wordforms :: "soup \<Rightarrow> pystr list" where
  "parse_wordforms doc =
     (case find_one (stempel_with (py ''B'' @ [248] @ py ''jning'')) (root doc) of
        None \<Rightarrow> []
      | Some box \<Rightarrow>
          (let text = (case find_next_sibling (matches (tag_only ''span'')) (l_sibs box) of
                         None \<Rightarrow> []
                       | Some sib \<Rightarrow> get_text [] True (fst sib))
           in filter (\<lambda>f. f \<noteq> []) (map strip (split_comma text))))"

text \<open>The loop over \<open>span.contents\<close>, carrying \<open>segments\<close> and \<open>desc\<close>.\<close>

fun etymology_loop :: "json list \<Rightarrow> pystr \<Rightarrow> node list \<Rightarrow> json list" where
  "etymology_loop segments desc [] = segments"
| "etymology_loop segments desc (Text s # ns) = etymology_loop segments (desc @ s) ns"
| "etymology_loop segments desc (Tag n i c h ks # ns) =
     (if (n = py ''span'' \<or> n = py ''a'') \<and> (py ''ordform'' \<in> set c \<or> n = py ''a'') then
        etymology_loop
          (segments @ [JDict [(py ''form'', JStr (get_text [] True (Tag n i c h ks))),
                              (py ''description'', JStr (strip_space_comma desc))]])
          [] ns
      else if py ''dividerDot'' \<in> set c then etymology_loop segments desc ns
      else etymology_loop segments (desc @ get_text [] True (Tag n i c h ks)) ns)"

definition parse_etymology :: "soup \<Rightarrow> json" where
  "parse_etymology doc =
     (case find_one (stempel_with (py ''Oprindelse'')) (root doc) of
        None \<Rightarrow> JNull
      | Some box \<Rightarrow>
          (case find_next_sibling (matches (tag_class ''span'' ''tekstmedium'')) (l_sibs box) of
             None \<Rightarrow> JNull
           | Some span \<Rightarrow>
               JDict [(py ''raw'', JStr (get_text [32] True (fst span))),
                      (py ''segments'', JList (etymology_loop [] [] (contents (fst span))))]))"

section \<open>Definitions\<close>

text \<open>
  The citation inside a \<open>div.citat-box\<close>: \<open>cite.select_one("span.citat").get_text(...)\<close>
  raises when the box has no such span; the source is optional.
\<close>

definition citation :: "loc \<Rightarrow> error + (pystr \<times> json)" where
  "citation cite =
     (case select_one [tag_class ''span'' ''citat''] cite of
        None \<Rightarrow> Inl AttributeError
      | Some ct \<Rightarrow>
          Inr (get_text [32] True (l_node ct),
               (case select_one [tag_class ''span'' ''kilde''] cite of
                  None \<Rightarrow> JNull
                | Some src \<Rightarrow> JStr (get_text [] True (l_node src)))))"

fun examples_loop :: "json list \<Rightarrow> loc list \<Rightarrow> error + json list" where
  "examples_loop examples [] = Inr examples"
| "examples_loop examples (cite # cites) =
     (case citation cite of
        Inl e \<Rightarrow> Inl e
      | Inr (txt, src) \<Rightarrow>
          examples_loop (examples @ [JDict [(py ''text'', JStr txt), (py ''source'', src)]]) cites)"

text \<open>\<open>(box.select_one("span.inlineList") or box).get_text(" ", strip=True)\<close>.\<close>

definition grammar_text :: "loc \<Rightarrow> pystr" where
  "grammar_text box =
     (case select_one [tag_class ''span'' ''inlineList''] box of
        None \<Rightarrow> get_text [32] True (l_node box)
      | Some inline \<Rightarrow> get_text [32] True (l_node inline))"

definition link_items :: "loc \<Rightarrow> json" where
  "link_items box = JList (map JStr (clean_links (map l_node (select [tag_only ''a''] box))))"

text \<open>
  The record of one sense, from its number and its indent block.  The keys
  \<open>see_also\<close> and \<open>related\<close> are set only under their \<open>if\<close>.
\<close>

definition definition_entry :: "pystr \<Rightarrow> loc \<Rightarrow> error + json" where
  "definition_entry num indent =
     (let def_box = select_one [Compound (Some (py ''div'')) None [py ''definitionBox'']
                                  (Some (py ''betydning-'')) None,
                                tag_class ''span'' ''definition''] indent;
          gramm = select_one [tag_class2 ''div'' ''definitionBox'' ''grammatik''] indent;
          sa = select_one [tag_class2 ''div'' ''definitionBox'' ''onym''] indent;
          rel = select_one [tag_class2 ''div'' ''definitionBox'' ''rel-begreber''] indent
      in (case examples_loop [] (select [tag_class ''div'' ''citat-box''] indent) of
            Inl e \<Rightarrow> Inl e
          | Inr examples \<Rightarrow>
              Inr (JDict
                ([(py ''number'', JStr num),
                  (py ''definition'',
                     (case def_box of None \<Rightarrow> JNull | Some d \<Rightarrow> JStr (get_text [32] True (l_node d)))),
                  (py ''grammar'',
                     (case gramm of None \<Rightarrow> JNull | Some g \<Rightarrow> JStr (grammar_text g)))]
                 @ (case sa of None \<Rightarrow> [] | Some b \<Rightarrow> [(py ''see_also'', link_items b)])
                 @ (case rel of None \<Rightarrow> [] | Some b \<Rightarrow> [(py ''related'', link_items b)])
                 @ [(py ''examples'', JList examples)]))))"

text \<open>
  The search for the indent block of a number marker: \<open>find_next_sibling()\<close> steps
  over the following sibling tags until one has the class \<open>definitionIndent\<close>, or the
  siblings end.
\<close>

fun next_indent :: "node list \<Rightarrow> (node \<times> node list) option" where
  "next_indent [] = None"
| "next_indent (n # ns) =
     (if is_tag n \<and> has_class (py ''definitionIndent'') n then Some (n, ns)
      else next_indent ns)"

text \<open>The loop over the number markers, carrying \<open>out\<close> and what was printed.\<close>

fun definitions_loop ::
  "pystr \<Rightarrow> json list \<Rightarrow> line list \<Rightarrow> loc list \<Rightarrow> error + (json list \<times> line list)" where
  "definitions_loop fn out lg [] = Inr (out, lg)"
| "definitions_loop fn out lg (num_tag # num_tags) =
     (let num = get_text [] True (l_node num_tag) in
      case next_indent (l_sibs num_tag) of
        None \<Rightarrow> definitions_loop fn out (lg @ [Warning fn num]) num_tags
      | Some indent \<Rightarrow>
          (case definition_entry num (l_anc num_tag, fst indent, snd indent) of
             Inl e \<Rightarrow> Inl e
           | Inr entry \<Rightarrow> definitions_loop fn (out @ [entry]) lg num_tags))"

definition parse_definitions :: "soup \<Rightarrow> pystr \<Rightarrow> error + (json list \<times> line list)" where
  "parse_definitions doc fn =
     (case find_one (matches (id_only ''content-betydninger'')) (root doc) of
        None \<Rightarrow> Inr ([], [])
      | Some container \<Rightarrow>
          definitions_loop fn [] [] (select [tag_class ''div'' ''definitionNumber''] container))"

section \<open>Fixed expressions\<close>

text \<open>
  The pattern \<open>^udtryk-\d+\<close> that \<open>find_all\<close> searches for in the \<open>id\<close> of a \<open>div\<close>.
\<close>

definition udtryk_id :: "pystr \<Rightarrow> bool" where
  "udtryk_id i =
     (startswith i (py ''udtryk-'') \<and> (case drop 7 i of [] \<Rightarrow> False | c # cs \<Rightarrow> is_digit c))"

definition udtryk_div :: "node \<Rightarrow> bool" where
  "udtryk_div n =
     (case n of Text s \<Rightarrow> False
      | Tag nm i c h ks \<Rightarrow> nm = py ''div'' \<and> (case i of None \<Rightarrow> False | Some v \<Rightarrow> udtryk_id v))"

text \<open>The detail record of one box of an indent block: none or one.\<close>

definition box_details :: "pystr \<Rightarrow> loc \<Rightarrow> error + json list" where
  "box_details ud_id box =
     (if ud_id \<noteq> [] \<and> startswith (get_id (l_node box)) (ud_id @ py ''-betydning'') then
        Inr [JDict [(py ''type'', JStr (py ''definition'')),
                    (py ''text'', JStr (get_text [32] True (l_node box)))]]
      else if has_class (py ''onym'') (l_node box) then
        Inr [JDict [(py ''type'', JStr (py ''see_also'')), (py ''items'', link_items box)]]
      else if has_class (py ''rel-begreber'') (l_node box) then
        Inr [JDict [(py ''type'', JStr (py ''related'')), (py ''items'', link_items box)]]
      else if has_class (py ''grammatik'') (l_node box) then
        Inr [JDict [(py ''type'', JStr (py ''grammar'')), (py ''text'', JStr (grammar_text box))]]
      else if (case select_one [tag_class ''span'' ''stempel''] box of
                 None \<Rightarrow> False
               | Some st \<Rightarrow> get_text [] True (l_node st) = py ''SPROGBRUG'') then
        (case select_one [tag_class ''span'' ''tekstnormal''] box of
           None \<Rightarrow> Inr []
         | Some usage \<Rightarrow>
             Inr [JDict [(py ''type'', JStr (py ''usage'')),
                         (py ''text'', JStr (get_text [] True (l_node usage)))]])
      else
        (case select_one [tag_class ''div'' ''citat-box''] box of
           None \<Rightarrow> Inr []
         | Some cite \<Rightarrow>
             (case citation cite of
                Inl e \<Rightarrow> Inl e
              | Inr (txt, src) \<Rightarrow>
                  Inr [JDict [(py ''type'', JStr (py ''example'')), (py ''text'', JStr txt),
                              (py ''source'', src)]])))"

fun boxes_loop :: "pystr \<Rightarrow> json list \<Rightarrow> loc list \<Rightarrow> error + json list" where
  "boxes_loop ud_id details [] = Inr details"
| "boxes_loop ud_id details (box # boxes) =
     (case box_details ud_id box of
        Inl e \<Rightarrow> Inl e
      | Inr ds \<Rightarrow> boxes_loop ud_id (details @ ds) boxes)"

text \<open>
  The walk \<open>node = ud.next_sibling; while node: ...; node = node.next_sibling\<close> over the
  siblings after an expression container.  It ends at an empty string node (falsy),
  at a \<open>div\<close> whose id starts with \<open>udtryk-\<close>, or with the siblings.
\<close>

fun walk :: "pystr \<Rightarrow> node list \<Rightarrow> json list \<Rightarrow> node list \<Rightarrow> error + json list" where
  "walk ud_id anc details [] = Inr details"
| "walk ud_id anc details (Text s # ns) =
     (if s = [] then Inr details else walk ud_id anc details ns)"
| "walk ud_id anc details (Tag n i c h ks # ns) =
     (if n = py ''div'' \<and> startswith (get_id (Tag n i c h ks)) (py ''udtryk-'') then Inr details
      else if py ''definitionIndent'' \<in> set c then
        (case boxes_loop ud_id details
                (find_all_children (matches (tag_class ''div'' ''definitionBox''))
                   (anc, Tag n i c h ks, ns)) of
           Inl e \<Rightarrow> Inl e
         | Inr details' \<Rightarrow> walk ud_id anc details' ns)
      else walk ud_id anc details ns)"

text \<open>The loop over the expression containers, carrying \<open>out\<close>.\<close>

fun fixed_loop :: "json list \<Rightarrow> loc list \<Rightarrow> error + json list" where
  "fixed_loop out [] = Inr out"
| "fixed_loop out (ud # uds) =
     (case select_one [tag_class ''span'' ''match''] ud of
        None \<Rightarrow> fixed_loop out uds
      | Some m \<Rightarrow>
          (case walk (get_id (l_node ud)) (l_anc ud) [] (l_sibs ud) of
             Inl e \<Rightarrow> Inl e
           | Inr details \<Rightarrow>
               fixed_loop
                 (out @ [JDict [(py ''expression'', JStr (get_text [] True (l_node m))),
                                (py ''details'', JList details)]])
                 uds))"

definition parse_fixed_expressions :: "soup \<Rightarrow> error + json list" where
  "parse_fixed_expressions doc =
     (case select_one [tag_class ''div'' ''artikel''] (root doc) of
        None \<Rightarrow> Inr []
      | Some art \<Rightarrow>
          (case select_one [id_only ''content-faste-udtryk''] art of
             None \<Rightarrow> Inr []
           | Some sec \<Rightarrow> fixed_loop [] (find_all udtryk_div sec)))"

section \<open>Entry assembly and the batch driver\<close>

text \<open>
  \<open>parse_entry(path)\<close>, given the file name \<open>fn\<close> (the base name of the path) and the
  parsed page.  The result is the exception raised, or the entry (\<open>None\<close> for a page
  without \<open>div.artikel\<close>) with the lines printed on the way.  The values of the
  dictionary are evaluated in the order of its keys.
\<close>

definition headword_of :: "pystr \<Rightarrow> pystr" where
  "headword_of raw_head = strip (DIGITS_TRAIL_sub (strip raw_head))"

definition parse_entry :: "pystr \<Rightarrow> soup \<Rightarrow> error + (json option \<times> line list)" where
  "parse_entry fn doc =
     (case select_one [tag_class ''div'' ''artikel''] (root doc) of
        None \<Rightarrow> Inr (None, [])
      | Some art \<Rightarrow>
          (case select_one [tag_class ''div'' ''definitionBoxTop'', tag_class ''span'' ''match''] art of
             None \<Rightarrow> Inl AttributeError
           | Some banner \<Rightarrow>
               (let raw_head = get_text [] True (l_node banner);
                    headword = headword_of raw_head;
                    pos_tag = select_one [tag_class ''div'' ''definitionBoxTop'',
                                          tag_class ''span'' ''tekstmedium''] art;
                    pos = (case pos_tag of None \<Rightarrow> JNull
                           | Some t \<Rightarrow> JStr (get_text [] True (l_node t)));
                    raw_forms = filter (\<lambda>f. f \<noteq> raw_head) (parse_wordforms doc);
                    forms = transform_wordforms headword raw_forms;
                    udtale = parse_udtale doc fn;
                    etymology = parse_etymology doc
                in (case parse_definitions doc fn of
                      Inl e \<Rightarrow> Inl e
                    | Inr defs \<Rightarrow>
                        (case parse_fixed_expressions doc of
                           Inl e \<Rightarrow> Inl e
                         | Inr fixed \<Rightarrow>
                             (case parse_orddannelser doc of
                                Inl e \<Rightarrow> Inl e
                              | Inr orddannelser \<Rightarrow>
                                  Inr (Some (JDict
                                         [(py ''file'', JStr fn),
                                          (py ''headword'', JStr headword),
                                          (py ''pos'', pos),
                                          (py ''udtale'', JList (fst udtale)),
                                          (py ''wordforms'', JList (map JStr forms)),
                                          (py ''etymology'', etymology),
                                          (py ''definitions'', JList (fst defs)),
                                          (py ''fixed_expressions'', JList fixed),
                                          (py ''orddannelser'', orddannelser)]),
                                       snd udtale @ snd defs)))))))"

text \<open>
  \<open>main()\<close>.  The input directory is the list of its file names, each with the page
  BeautifulSoup parses from it; \<open>os.listdir\<close> gives the names in any order and
  \<open>sorted\<close> orders them as Python compares strings, code point by code point.  The
  loop carries \<open>entries\<close>, \<open>skipped_files\<close> and the lines printed.  A run that
  returns has written \<open>entries\<close> and printed the report after the extractors' lines.
\<close>

fun main_loop ::
  "json list \<Rightarrow> pystr list \<Rightarrow> line list \<Rightarrow> (pystr \<times> soup) list \<Rightarrow>
     error + (json list \<times> pystr list \<times> line list)" where
  "main_loop entries skipped_files lg [] = Inr (entries, skipped_files, lg)"
| "main_loop entries skipped_files lg ((fn, doc) # files) =
     (if \<not> endswith fn (py ''.html'') then main_loop entries skipped_files lg files
      else
        (case parse_entry fn doc of
           Inl e \<Rightarrow> Inl e
         | Inr (None, printed) \<Rightarrow> main_loop entries (skipped_files @ [fn]) (lg @ printed) files
         | Inr (Some entry, printed) \<Rightarrow>
             main_loop (entries @ [entry]) skipped_files (lg @ printed) files))"

record run =
  written :: "json list"
  skipped :: "pystr list"
  printed :: "line list"

definition report :: "json list \<Rightarrow> pystr list \<Rightarrow> line list" where
  "report entries skipped_files =
     Parsed (length entries) #
     (if skipped_files \<noteq> [] then Skipped (length skipped_files) # map SkippedName skipped_files
      else [])"

definition main :: "(pystr \<times> soup) list \<Rightarrow> error + run" where
  "main dir =
     (case main_loop [] [] [] (sort_key fst dir) of
        Inl e \<Rightarrow> Inl e
      | Inr (entries, skipped_files, lg) \<Rightarrow>
          Inr \<lparr>written = entries, skipped = skipped_files,
               printed = lg @ report entries skipped_files\<rparr>)"

section \<open>The label machine of the specification\<close>

text \<open>
  The specification resolves pronunciation labels in one forward pass over the
  children, with a slot for the pending label: a transcription node takes the pending
  label and clears the slot; a discrete-label node sets the slot, for the next
  transcription node.  This definition follows the specification's words, not the
  code; a node carrying both markers is subject to both rules, its own label applying
  to the transcription after it.
\<close>

fun spec_label_machine :: "pystr option \<Rightarrow> node list \<Rightarrow> pystr option list" where
  "spec_label_machine pending [] = []"
| "spec_label_machine pending (n # ns) =
     (let transcription = has_class (py ''lydskrift'') n;
          discrete_label = has_class (py ''diskret'') n;
          attached = (if transcription then [pending] else []);
          cleared = (if transcription then None else pending);
          pending' = (if discrete_label then Some (get_text [32] True n) else cleared)
      in attached @ spec_label_machine pending' ns)"

text \<open>The \<open>label\<close> field of a pronunciation record.\<close>

definition label_of :: "json \<Rightarrow> json option" where
  "label_of e = dict_get e (py ''label'')"

section \<open>Example pages\<close>

text \<open>Shorthands for writing pages down: an element with classes, one with an id, a text.\<close>

definition el :: "string \<Rightarrow> string list \<Rightarrow> node list \<Rightarrow> node" where
  "el n cs ks = Tag (py n) None (map py cs) None ks"

definition el_id :: "string \<Rightarrow> string \<Rightarrow> string list \<Rightarrow> node list \<Rightarrow> node" where
  "el_id n i cs ks = Tag (py n) (Some (py i)) (map py cs) None ks"

definition tx :: "string \<Rightarrow> node" where
  "tx s = Text (py s)"

text \<open>
  The children of a pronunciation block: a label and two transcriptions, the second
  with the length mark (code point 720).
\<close>

definition hus_udtale :: "node list" where
  "hus_udtale =
     [el ''span'' [''diskret''] [tx ''navneord''],
      el ''span'' [''lydskrift''] [tx ''[hus]''],
      el ''span'' [''lydskrift''] [Text (py ''[hu'' @ [720] @ py ''s]'')]]"

text \<open>Three anchors: a boilerplate text, a text with a homograph index, a plain one.\<close>

definition begreb_links :: "node list" where
  "begreb_links =
     [el ''a'' [] [tx ''...vis mere''], el ''a'' [] [tx ''begreb12''], el ''a'' [] [tx ''ord'']]"

text \<open>
  A page with one sense.  The banner holds the headword and its homograph index; the
  indent block has a definition box and neither a see-also nor a related-concepts box.
\<close>

definition page_hus :: soup where
  "page_hus =
     [el ''div'' [''artikel'']
        [el ''div'' [''definitionBoxTop'']
           [el ''span'' [''match''] [tx ''hus'', el ''sup'' [] [tx ''1'']],
            el ''span'' [''tekstmedium''] [tx ''substantiv'']],
         el_id ''div'' ''content-betydninger'' []
           [el ''div'' [''definitionNumber''] [tx ''1.''],
            el ''div'' [''definitionIndent'']
              [el_id ''div'' ''betydning-1'' [''definitionBox'']
                 [el ''span'' [''definition''] [tx ''bygning'']]]]]]"

definition sense_bygning :: "string \<Rightarrow> json" where
  "sense_bygning num =
     JDict [(py ''number'', JStr (py num)), (py ''definition'', JStr (py ''bygning'')),
            (py ''grammar'', JNull), (py ''examples'', JList [])]"

definition entry_hus :: "pystr \<Rightarrow> json" where
  "entry_hus fn =
     JDict [(py ''file'', JStr fn),
            (py ''headword'', JStr (py ''hus'')),
            (py ''pos'', JStr (py ''substantiv'')),
            (py ''udtale'', JList []),
            (py ''wordforms'', JList []),
            (py ''etymology'', JNull),
            (py ''definitions'', JList [sense_bygning ''1.'']),
            (py ''fixed_expressions'', JList []),
            (py ''orddannelser'', JDict [])]"



text \<open>
  A definitions block with two number markers and one indent block, which follows the
  second marker.
\<close>

definition page_two_markers :: soup where
  "page_two_markers =
     [el ''div'' [''artikel'']
        [el ''div'' [''definitionBoxTop''] [el ''span'' [''match''] [tx ''hus'']],
         el_id ''div'' ''content-betydninger'' []
           [el ''div'' [''definitionNumber''] [tx ''1.''],
            el ''div'' [''definitionNumber''] [tx ''2.''],
            el ''div'' [''definitionIndent'']
              [el_id ''div'' ''betydning-2'' [''definitionBox'']
                 [el ''span'' [''definition''] [tx ''bygning'']]]]]]"

text \<open>A page with the article container and no banner.\<close>

definition page_no_banner :: soup where
  "page_no_banner = [el ''div'' [''artikel''] [tx ''hus'']]"

text \<open>A page whose banner text is a number.\<close>

definition page_digits :: soup where
  "page_digits =
     [el ''div'' [''artikel'']
        [el ''div'' [''definitionBoxTop''] [el ''span'' [''match''] [tx ''123'']]]]"

definition entry_digits :: json where
  "entry_digits =
     JDict [(py ''file'', JStr (py ''123.html'')),
            (py ''headword'', JStr []),
            (py ''pos'', JNull),
            (py ''udtale'', JList []),
            (py ''wordforms'', JList []),
            (py ''etymology'', JNull),
            (py ''definitions'', JList []),
            (py ''fixed_expressions'', JList []),
            (py ''orddannelser'', JDict [])]"







text \<open>A directory: a text file, a page without article container, a page with one.\<close>

definition dir_mixed :: "(pystr \<times> soup) list" where
  "dir_mixed =
     [(py ''notes.txt'', page_hus), (py ''b.html'', [tx ''moved'']), (py ''a.html'', page_hus)]"

definition run_mixed :: run where
  "run_mixed =
     \<lparr>written = [entry_hus (py ''a.html'')], skipped = [py ''b.html''],
      printed = [Note (py ''a.html''), Parsed 1, Skipped 1, SkippedName (py ''b.html'')]\<rparr>"

text \<open>A directory whose second page has no banner.\<close>

definition dir_broken :: "(pystr \<times> soup) list" where
  "dir_broken = [(py ''b.html'', page_no_banner), (py ''a.html'', page_hus)]"

section \<open>Facts about strings\<close>

lemma py_simps:
  "py [] = []"
  "py (c # cs) = of_char c # py cs"
  by (simp_all add: py_def)

text \<open>The defining equations that evaluate the extractors on a given page.\<close>

lemmas eval_defs =
  py_simps el_def el_id_def tx_def is_space_def whitespace_def is_digit_def Nd_ranges_def
  strip_chars_def strip_def strip_space_comma_def startswith_def endswith_def rstrip_digits_def
  DIGITS_TRAIL_sub_def suffix_letter_def hyphen_letters_def SUFFIX_RE_match_def
  transform_wordforms_def contents_def shell_def l_anc_def l_node_def l_sibs_def descendants_def
  root_def get_text_def is_tag_def has_class_def tname_def get_href_def get_id_def opt_holds_def
  matches_sel_def select_def select_one_def find_all_def find_one_def find_all_children_def
  tag_class_def tag_only_def id_only_def tag_class2_def UNWANTED_TEXTS_def clean_links_def
  opt_str_def dict_keys_def dict_get_def nonempty_text_def text_val_def parse_orddannelser_def
  udtale_entry_def udtale_children_def parse_udtale_def stempel_with_def parse_wordforms_def
  parse_etymology_def citation_def grammar_text_def link_items_def definition_entry_def
  parse_definitions_def udtryk_id_def udtryk_div_def box_details_def parse_fixed_expressions_def
  headword_of_def parse_entry_def report_def main_def Let_def

lemma is_space_lf: "is_space 10"
  by (simp add: is_space_def whitespace_def)

lemma strip_last: "strip s \<noteq> [] \<Longrightarrow> \<not> is_space (last (strip s))"
proof -
  assume a: "strip s \<noteq> []"
  let ?d = "dropWhile is_space (rev (dropWhile is_space s))"
  from a have ne: "?d \<noteq> []" by (simp add: strip_def strip_chars_def)
  have "last (strip s) = hd ?d" using ne by (simp add: strip_def strip_chars_def last_rev)
  moreover have "\<not> is_space (hd ?d)" using ne by (rule hd_dropWhile)
  ultimately show ?thesis by simp
qed

lemma join_empty: "join [] xs = concat xs"
  by (induction "[]::nat list" xs rule: join.induct) simp_all

lemma last_concat_stripped:
  "xs \<noteq> [] \<Longrightarrow> \<forall>x\<in>set xs. x \<noteq> [] \<and> \<not> is_space (last x) \<Longrightarrow> \<not> is_space (last (concat xs))"
  by (induction xs rule: rev_induct) auto

text \<open>Text taken with \<open>strip=True\<close> and an empty separator never ends in whitespace.\<close>

lemma get_text_last:
  assumes "get_text [] True n \<noteq> []"
  shows "\<not> is_space (last (get_text [] True n))"
proof -
  let ?ps = "filter (\<lambda>s. s \<noteq> []) (map strip (strings n))"
  have eq: "get_text [] True n = concat ?ps" by (simp add: get_text_def join_empty)
  have ne: "?ps \<noteq> []"
  proof
    assume "?ps = []"
    then have "concat ?ps = []" by simp
    with eq assms show False by simp
  qed
  have "\<forall>x\<in>set ?ps. x \<noteq> [] \<and> \<not> is_space (last x)"
    using strip_last by auto
  with ne have "\<not> is_space (last (concat ?ps))" by (rule last_concat_stripped)
  with eq show ?thesis by simp
qed

text \<open>So on such a text the substitution removes the digit run at the very end.\<close>

lemma DIGITS_TRAIL_sub_get_text:
  "DIGITS_TRAIL_sub (get_text [] True n) = rstrip_digits (get_text [] True n)"
  using get_text_last [of n] is_space_lf by (auto simp: DIGITS_TRAIL_sub_def)

lemma suffix_letter_not_lf: "suffix_letter c \<Longrightarrow> c \<noteq> 10"
  by (auto simp: suffix_letter_def)

lemma hyphen_letters_no_lf: "hyphen_letters f \<Longrightarrow> last f \<noteq> 10"
proof (cases f)
  case Nil
  assume "hyphen_letters f"
  with Nil show ?thesis by (simp add: hyphen_letters_def)
next
  case (Cons c r)
  assume h: "hyphen_letters f"
  with Cons have r: "r \<noteq> []" and all: "list_all suffix_letter r"
    by (auto simp: hyphen_letters_def)
  from r have "last r \<in> set r" by simp
  with all have "suffix_letter (last r)" by (simp add: list_all_iff)
  then have "last r \<noteq> 10" by (rule suffix_letter_not_lf)
  with Cons r show ?thesis by simp
qed

section \<open>Suffix expansion (C7)\<close>

lemma transform_loop_map:
  "transform_loop hw out fs =
     out @ map (\<lambda>f. if SUFFIX_RE_match f then hw @ drop 1 f else f) fs"
  by (induction fs arbitrary: out) simp_all




text \<open>
  The forms that reach suffix expansion come from \<open>parse_wordforms\<close>, which strips each
  of them: none ends in a line feed, and on them the rewritten forms are exactly the
  hyphen-and-letters ones.
\<close>

lemma parse_wordforms_stripped:
  "f \<in> set (parse_wordforms doc) \<Longrightarrow> f \<noteq> [] \<and> \<not> is_space (last f)"
  by (auto simp: parse_wordforms_def Let_def strip_last split: option.splits)

lemma transform_parsed_wordforms:
  "transform_wordforms headword (filter p (parse_wordforms doc)) =
     map (\<lambda>f. if hyphen_letters f then headword @ drop 1 f else f)
       (filter p (parse_wordforms doc))"
proof -
  have "SUFFIX_RE_match f = hyphen_letters f" if "f \<in> set (parse_wordforms doc)" for f
  proof -
    from that have "\<not> is_space (last f)" by (simp add: parse_wordforms_stripped)
    with is_space_lf have "last f \<noteq> 10" by auto
    then show ?thesis by (simp add: SUFFIX_RE_match_def)
  qed
  then show ?thesis
    by (simp add: transform_wordforms_def transform_loop_map)
qed

section \<open>Link cleaning (C6)\<close>

lemma clean_loop_eq:
  "clean_loop out as =
     out @ filter (\<lambda>t. t \<noteq> [])
             (map rstrip_digits (filter (\<lambda>t. t \<notin> UNWANTED_TEXTS) (map (get_text [] True) as)))"
  by (induction as arbitrary: out) (simp_all add: Let_def DIGITS_TRAIL_sub_get_text)

text \<open>
  C6: for every list of anchors, link cleaning takes their texts in order, drops
  exactly those that are one of the boilerplate strings, strips the trailing digit
  run of each surviving text, and drops the texts left empty; the order of the rest
  is kept.
\<close>

theorem clean_links_filter_strip:
  "clean_links a_tags =
     filter (\<lambda>t. t \<noteq> [])
       (map rstrip_digits
          (filter (\<lambda>t. t \<notin> UNWANTED_TEXTS) (map (get_text [] True) a_tags)))"
  by (simp add: clean_links_def clean_loop_eq)

lemma begreb_links_texts:
  "map (get_text [] True) begreb_links = [py ''...vis mere'', py ''begreb12'', py ''ord'']"
  by (simp add: begreb_links_def el_def tx_def get_text_def strip_def strip_chars_def
      is_space_def whitespace_def py_simps)

theorem clean_links_filter_strip_witness:
  "clean_links begreb_links = [py ''begreb'', py ''ord'']"
  using clean_links_filter_strip [of begreb_links]
  by (simp add: begreb_links_texts UNWANTED_TEXTS_def rstrip_digits_def is_digit_def
      Nd_ranges_def py_simps)

section \<open>Pronunciation labels (C5)\<close>

lemma has_class_is_tag: "has_class c n \<Longrightarrow> is_tag n"
  by (cases n) (simp_all add: has_class_def is_tag_def)

lemma py_label_distinct: "py ''label'' \<noteq> py ''ipa''" "py ''label'' \<noteq> py ''audio''"
  by (simp_all add: py_def)

lemma label_of_udtale_entry:
  "idx < length children \<Longrightarrow>
   map label_of (udtale_entry anc children idx) =
     (if has_class (py ''lydskrift'') (children ! idx)
      then [Some (opt_str (find_label (rev (take idx children))))] else [])"
  using has_class_is_tag [of "py ''lydskrift''" "children ! idx"]
  by (auto simp: udtale_entry_def Let_def label_of_def dict_get_def py_label_distinct)

text \<open>One step of the backward scan, seen from the node it meets first.\<close>

lemma find_label_step:
  "find_label (x # ps) =
     (if has_class (py ''diskret'') x then Some (get_text [32] True x)
      else if has_class (py ''lydskrift'') x then None else find_label ps)"
  using has_class_is_tag [of "py ''diskret''" x] has_class_is_tag [of "py ''lydskrift''" x]
  by (cases x) (auto simp: has_class_def is_tag_def)

text \<open>
  The labels of the records made from the children after a prefix \<open>pre\<close> are those the
  machine attaches when it starts with what the backward scan finds in \<open>pre\<close>.
\<close>

lemma labels_from_prefix:
  "concat (map (\<lambda>idx. map label_of (udtale_entry anc (pre @ xs) idx))
             [length pre..<length pre + length xs]) =
   map (\<lambda>l. Some (opt_str l)) (spec_label_machine (find_label (rev pre)) xs)"
proof (induction xs arbitrary: pre)
  case Nil
  show ?case by simp
next
  case (Cons x xs)
  have range: "[length pre..<length pre + length (x # xs)] =
      length pre # [length (pre @ [x])..<length (pre @ [x]) + length xs]"
  proof -
    have "[length pre..<length pre + Suc (length xs)] =
        length pre # [Suc (length pre)..<length pre + Suc (length xs)]"
      by (rule upt_conv_Cons) simp
    then show ?thesis by simp
  qed
  have here: "map label_of (udtale_entry anc (pre @ x # xs) (length pre)) =
      (if has_class (py ''lydskrift'') x then [Some (opt_str (find_label (rev pre)))] else [])"
    using label_of_udtale_entry [of "length pre" "pre @ x # xs" anc] by simp
  have rest: "concat (map (\<lambda>idx. map label_of (udtale_entry anc (pre @ x # xs) idx))
                 [length (pre @ [x])..<length (pre @ [x]) + length xs]) =
      map (\<lambda>l. Some (opt_str l)) (spec_label_machine (find_label (rev (pre @ [x]))) xs)"
    using Cons.IH [of "pre @ [x]"] by simp
  have pend: "find_label (rev (pre @ [x])) =
      (if has_class (py ''diskret'') x then Some (get_text [32] True x)
       else if has_class (py ''lydskrift'') x then None else find_label (rev pre))"
    using find_label_step [of x "rev pre"] by simp
  show ?case
    unfolding range list.map concat.simps here rest pend
    by (simp add: Let_def)
qed

text \<open>
  C5: for every list of children of the pronunciation block, the labels of the records
  the code builds, each found by its own backward scan, are the labels the forward
  pass of the specification attaches, in the same order.
\<close>

theorem udtale_labels_refine_spec_machine:
  "map label_of (udtale_children anc children) =
     map (\<lambda>l. Some (opt_str l)) (spec_label_machine None children)"
  using labels_from_prefix [of anc "[]" children]
  by (simp add: udtale_children_def map_concat comp_def)

theorem udtale_labels_refine_spec_machine_witness:
  "map label_of (udtale_children [] hus_udtale) = [Some (JStr (py ''navneord'')), Some JNull]"
  using udtale_labels_refine_spec_machine [of "[]" hus_udtale]
  by (simp add: hus_udtale_def el_def tx_def has_class_def get_text_def strip_def strip_chars_def
      is_space_def whitespace_def opt_str_def py_simps)

section \<open>The extractors on the example pages\<close>

lemma parse_entry_page_hus:
  "parse_entry fn page_hus = Inr (Some (entry_hus fn), [Note fn])"
  by (simp add: eval_defs page_hus_def entry_hus_def sense_bygning_def)

lemma parse_entry_page_no_banner:
  "parse_entry fn page_no_banner = Inl AttributeError"
  by (simp add: eval_defs page_no_banner_def)

lemma parse_entry_moved:
  "parse_entry fn [tx ''moved''] = Inr (None, [])"
  by (simp add: eval_defs)


lemma sort_dir_mixed:
  "sort_key fst dir_mixed =
     [(py ''a.html'', page_hus), (py ''b.html'', [tx ''moved'']), (py ''notes.txt'', page_hus)]"
  by (simp add: dir_mixed_def py_simps)

lemma main_dir_mixed: "main dir_mixed = Inr run_mixed"
  by (simp add: main_def sort_dir_mixed parse_entry_page_hus parse_entry_moved endswith_def
      py_simps run_mixed_def report_def)

section \<open>Binding a sense to its indent block (C1)\<close>

text \<open>
  The search returns the first following sibling with the indent marker, whatever
  the siblings before it are.
\<close>

lemma next_indent_first:
  "next_indent sibs = Some (n, rest) \<Longrightarrow>
   \<exists>skipped. sibs = skipped @ n # rest \<and> has_class (py ''definitionIndent'') n \<and>
     list_all (\<lambda>m. \<not> has_class (py ''definitionIndent'') m) skipped"
proof (induction sibs)
  case Nil
  then show ?case by simp
next
  case (Cons x xs)
  show ?case
  proof (cases "is_tag x \<and> has_class (py ''definitionIndent'') x")
    case True
    with Cons.prems have "x = n" and "xs = rest" by simp_all
    with True have "x # xs = [] @ n # rest \<and> has_class (py ''definitionIndent'') n \<and>
        list_all (\<lambda>m. \<not> has_class (py ''definitionIndent'') m) []"
      by simp
    then show ?thesis by blast
  next
    case False
    with Cons.prems have "next_indent xs = Some (n, rest)" by auto
    from Cons.IH [OF this] obtain skipped where
      s: "xs = skipped @ n # rest" "has_class (py ''definitionIndent'') n"
         "list_all (\<lambda>m. \<not> has_class (py ''definitionIndent'') m) skipped"
      by blast
    from False have "\<not> has_class (py ''definitionIndent'') x"
      using has_class_is_tag [of "py ''definitionIndent''" x] by blast
    with s have "x # xs = (x # skipped) @ n # rest \<and> has_class (py ''definitionIndent'') n \<and>
        list_all (\<lambda>m. \<not> has_class (py ''definitionIndent'') m) (x # skipped)"
      by simp
    then show ?thesis by blast
  qed
qed

text \<open>
  What the loop does for a number marker with no indent block among all the siblings
  after it: the miss is printed, the sense is dropped and the loop goes on.
\<close>

lemma definitions_loop_miss:
  "next_indent (l_sibs num_tag) = None \<Longrightarrow>
   definitions_loop fn out lg (num_tag # num_tags) =
     definitions_loop fn out (lg @ [Warning fn (get_text [] True (l_node num_tag))]) num_tags"
  by (simp add: Let_def)

text \<open>
  C1 says that a sense with no indent block before the next number marker is logged
  and dropped, and never binds an indent block beyond that marker.  The search does
  not stop at a number marker: on the page with two markers followed by one indent
  block, the first sense is bound to the block of the second, both senses are
  returned with the same definition, and nothing is printed.
\<close>

theorem parse_definitions_binds_past_marker:
  "parse_definitions page_two_markers (py ''hus.html'') =
     Inr ([sense_bygning ''1.'', sense_bygning ''2.''], [])"
  by (simp add: eval_defs page_two_markers_def sense_bygning_def)

section \<open>Keys of the records (C2)\<close>







section \<open>Missing banner (C3)\<close>

text \<open>
  C3 says that parsing returns an Entry or a skip signal for every page and never
  raises, a page without banner being reported as skipped.  On a page that has the
  article container and no banner, \<open>parse_entry\<close> calls \<open>get_text\<close> on \<open>None\<close> and
  raises.
\<close>

theorem parse_entry_raises_without_banner:
  "parse_entry (py ''hus.html'') page_no_banner = Inl AttributeError"
  by (simp add: parse_entry_page_no_banner)

section \<open>The headword (C4)\<close>

lemma strip_nonspace: "list_all (\<lambda>c. \<not> is_space c) s \<Longrightarrow> strip s = s"
proof -
  assume a: "list_all (\<lambda>c. \<not> is_space c) s"
  have d: "dropWhile is_space t = t" if "list_all (\<lambda>c. \<not> is_space c) t" for t
    using that by (cases t) simp_all
  from a have "list_all (\<lambda>c. \<not> is_space c) (rev s)" by (simp add: list_all_iff)
  with a show ?thesis by (simp add: strip_def strip_chars_def d)
qed

lemma rstrip_digits_last: "rstrip_digits s = [] \<or> \<not> is_digit (last (rstrip_digits s))"
proof (cases "dropWhile is_digit (rev s) = []")
  case True
  then show ?thesis by (simp add: rstrip_digits_def)
next
  case False
  then have "\<not> is_digit (hd (dropWhile is_digit (rev s)))" by (rule hd_dropWhile)
  with False show ?thesis by (simp add: rstrip_digits_def last_rev)
qed

lemma rstrip_digits_subset: "set (rstrip_digits s) \<subseteq> set s"
  using set_dropWhileD [of _ is_digit "rev s"] by (auto simp: rstrip_digits_def)

lemma DIGITS_TRAIL_sub_strip: "DIGITS_TRAIL_sub (strip s) = rstrip_digits (strip s)"
  using strip_last [of s] is_space_lf by (auto simp: DIGITS_TRAIL_sub_def)

lemma headword_of_eq: "headword_of raw = strip (rstrip_digits (strip raw))"
  by (simp add: headword_of_def DIGITS_TRAIL_sub_strip)

lemma headword_of_nonspace:
  assumes "list_all (\<lambda>c. \<not> is_space c) raw"
  shows "headword_of raw = rstrip_digits raw"
proof -
  from assms have "strip raw = raw" by (rule strip_nonspace)
  moreover from assms rstrip_digits_subset [of raw]
  have "list_all (\<lambda>c. \<not> is_space c) (rstrip_digits raw)" by (auto simp: list_all_iff)
  then have "strip (rstrip_digits raw) = rstrip_digits raw" by (rule strip_nonspace)
  ultimately show ?thesis by (simp add: headword_of_eq)
qed

lemma headword_of_last: "headword_of raw = [] \<or> \<not> is_space (last (headword_of raw))"
  using strip_last [of "rstrip_digits (strip raw)"] by (auto simp: headword_of_eq)

text \<open>The digit run is removed before the last trimming, so a digit can come to the end.\<close>

lemma headword_of_inner_digit: "headword_of (py ''a1 2'') = py ''a1''"
  by (simp add: eval_defs)

lemma parse_entry_headword:
  "parse_entry fn doc = Inr (Some e, lg) \<Longrightarrow>
   \<exists>art banner.
      select_one [tag_class ''div'' ''artikel''] (root doc) = Some art \<and>
      select_one [tag_class ''div'' ''definitionBoxTop'', tag_class ''span'' ''match''] art =
        Some banner \<and>
      dict_get e (py ''headword'') = Some (JStr (headword_of (get_text [] True (l_node banner))))"
  by (auto simp: parse_entry_def Let_def dict_get_def py_simps split: option.splits sum.splits)

text \<open>
  C4, as stated: the headword of every Entry is non-empty, and a page whose headword
  would be empty yields no Entry.  There is no such check: the page whose banner text
  is a number yields an Entry, with the empty headword.
\<close>

theorem empty_headword_counterexample:
  "parse_entry (py ''123.html'') page_digits = Inr (Some entry_digits, [Note (py ''123.html'')]) \<and>
   dict_get entry_digits (py ''headword'') = Some (JStr [])"
  by (simp add: eval_defs page_digits_def entry_digits_def)

text \<open>
  C4, amended: for every page that yields an Entry, the headword is the banner text
  trimmed, with its trailing digit run removed, and trimmed again.  It never ends in
  whitespace; when the banner text contains no whitespace it is the banner text
  without its trailing digit run, and does not end in a digit.  It may be empty, and
  the Entry is produced all the same.
\<close>

theorem headword_trimmed_without_index:
  assumes "parse_entry fn doc = Inr (Some e, lg)"
  shows "\<exists>art banner raw.
      select_one [tag_class ''div'' ''artikel''] (root doc) = Some art \<and>
      select_one [tag_class ''div'' ''definitionBoxTop'', tag_class ''span'' ''match''] art =
        Some banner \<and>
      raw = get_text [] True (l_node banner) \<and>
      dict_get e (py ''headword'') = Some (JStr (strip (rstrip_digits (strip raw)))) \<and>
      (strip (rstrip_digits (strip raw)) = [] \<or>
         \<not> is_space (last (strip (rstrip_digits (strip raw))))) \<and>
      (list_all (\<lambda>c. \<not> is_space c) raw \<longrightarrow>
         strip (rstrip_digits (strip raw)) = rstrip_digits raw \<and>
         (rstrip_digits raw = [] \<or> \<not> is_digit (last (rstrip_digits raw))))"
proof -
  from parse_entry_headword [OF assms] obtain art banner where
    art: "select_one [tag_class ''div'' ''artikel''] (root doc) = Some art" and
    banner: "select_one [tag_class ''div'' ''definitionBoxTop'', tag_class ''span'' ''match''] art =
        Some banner" and
    hw: "dict_get e (py ''headword'') = Some (JStr (headword_of (get_text [] True (l_node banner))))"
    by blast
  let ?raw = "get_text [] True (l_node banner)"
  have "strip (rstrip_digits (strip ?raw)) = [] \<or>
      \<not> is_space (last (strip (rstrip_digits (strip ?raw))))"
    using headword_of_last [of ?raw] by (simp add: headword_of_eq)
  moreover have "list_all (\<lambda>c. \<not> is_space c) ?raw \<longrightarrow>
      strip (rstrip_digits (strip ?raw)) = rstrip_digits ?raw \<and>
      (rstrip_digits ?raw = [] \<or> \<not> is_digit (last (rstrip_digits ?raw)))"
    using headword_of_nonspace [of ?raw] rstrip_digits_last [of ?raw]
    by (simp add: headword_of_eq)
  ultimately have
    "select_one [tag_class ''div'' ''artikel''] (root doc) = Some art \<and>
      select_one [tag_class ''div'' ''definitionBoxTop'', tag_class ''span'' ''match''] art =
        Some banner \<and>
      ?raw = get_text [] True (l_node banner) \<and>
      dict_get e (py ''headword'') = Some (JStr (strip (rstrip_digits (strip ?raw)))) \<and>
      (strip (rstrip_digits (strip ?raw)) = [] \<or>
         \<not> is_space (last (strip (rstrip_digits (strip ?raw))))) \<and>
      (list_all (\<lambda>c. \<not> is_space c) ?raw \<longrightarrow>
         strip (rstrip_digits (strip ?raw)) = rstrip_digits ?raw \<and>
         (rstrip_digits ?raw = [] \<or> \<not> is_digit (last (rstrip_digits ?raw))))"
    using art banner hw by (simp add: headword_of_eq)
  then show ?thesis by (intro exI)
qed

theorem headword_trimmed_without_index_witness:
  "parse_entry (py ''hus.html'') page_hus =
     Inr (Some (entry_hus (py ''hus.html'')), [Note (py ''hus.html'')]) \<and>
   dict_get (entry_hus (py ''hus.html'')) (py ''headword'') = Some (JStr (py ''hus'')) \<and>
   (\<exists>art banner raw.
      select_one [tag_class ''div'' ''artikel''] (root page_hus) = Some art \<and>
      select_one [tag_class ''div'' ''definitionBoxTop'', tag_class ''span'' ''match''] art =
        Some banner \<and>
      raw = get_text [] True (l_node banner) \<and>
      py ''hus'' = strip (rstrip_digits (strip raw)))"
proof -
  have e: "parse_entry (py ''hus.html'') page_hus =
     Inr (Some (entry_hus (py ''hus.html'')), [Note (py ''hus.html'')])"
    by (rule parse_entry_page_hus)
  have hw: "dict_get (entry_hus (py ''hus.html'')) (py ''headword'') = Some (JStr (py ''hus''))"
    by (simp add: entry_hus_def dict_get_def py_simps)
  from headword_trimmed_without_index [OF e] hw have
    "\<exists>art banner raw.
      select_one [tag_class ''div'' ''artikel''] (root page_hus) = Some art \<and>
      select_one [tag_class ''div'' ''definitionBoxTop'', tag_class ''span'' ''match''] art =
        Some banner \<and>
      raw = get_text [] True (l_node banner) \<and>
      py ''hus'' = strip (rstrip_digits (strip raw))"
    by auto
  with e hw show ?thesis by simp
qed


section \<open>The batch driver (C8, C9)\<close>

text \<open>
  C8 says that the batch has no abort path.  The loop of \<open>main\<close> calls \<open>parse_entry\<close>
  without handling exceptions: with a page without banner in the directory, \<open>main\<close>
  raises after the first page was parsed; nothing is written and no report is printed.
\<close>

theorem main_aborts_on_page_without_banner:
  "main dir_broken = Inl AttributeError"
  by (simp add: main_def dir_broken_def parse_entry_page_hus parse_entry_page_no_banner
      endswith_def py_simps)

text \<open>The loop returns when no page raises.\<close>

lemma main_loop_returns:
  "list_all (\<lambda>(fn, doc). \<forall>e. parse_entry fn doc \<noteq> Inl e) files \<Longrightarrow>
   \<exists>r. main_loop entries skipped_files lg files = Inr r"
proof (induction files arbitrary: entries skipped_files lg)
  case Nil
  show ?case by simp
next
  case (Cons p files)
  obtain g doc where p: "p = (g, doc)" by (cases p)
  from Cons.prems have rest: "list_all (\<lambda>(fn, doc). \<forall>e. parse_entry fn doc \<noteq> Inl e) files"
    and here: "\<forall>e. parse_entry g doc \<noteq> Inl e" using p by simp_all
  show ?case
  proof (cases "parse_entry g doc")
    case (Inl e)
    with here show ?thesis by simp
  next
    case (Inr res)
    obtain eo pr where res: "res = (eo, pr)" by (cases res)
    show ?thesis
      using Inr res p Cons.IH [OF rest] by (cases eo) auto
  qed
qed


lemma main_loop_filter:
  "main_loop entries skipped_files lg files =
     main_loop entries skipped_files lg (filter (\<lambda>(fn, doc). endswith fn (py ''.html'')) files)"
  by (induction files arbitrary: entries skipped_files lg)
     (auto split: option.splits sum.splits prod.splits)

lemma main_filter:
  "main dir = main (filter (\<lambda>(fn, doc). endswith fn (py ''.html'')) dir)"
  unfolding main_def
  by (subst main_loop_filter) (simp add: filter_sort)

lemma parse_entry_file:
  "parse_entry fn doc = Inr (Some entry, pr) \<Longrightarrow> dict_get entry (py ''file'') = Some (JStr fn)"
  by (auto simp: parse_entry_def Let_def dict_get_def split: option.splits sum.splits)

lemma main_loop_html:
  "main_loop entries skipped_files lg files = Inr (entries', skipped', lg') \<Longrightarrow>
   \<not> endswith fn (py ''.html'') \<Longrightarrow>
   fn \<notin> set skipped_files \<Longrightarrow>
   Some (JStr fn) \<notin> set (map (\<lambda>e. dict_get e (py ''file'')) entries) \<Longrightarrow>
   fn \<notin> set skipped' \<and> Some (JStr fn) \<notin> set (map (\<lambda>e. dict_get e (py ''file'')) entries')"
proof (induction files arbitrary: entries skipped_files lg)
  case Nil
  then show ?case by simp
next
  case (Cons p files)
  obtain g doc where p: "p = (g, doc)" by (cases p)
  show ?case
  proof (cases "endswith g (py ''.html'')")
    case False
    with Cons p show ?thesis by simp
  next
    case True
    with Cons.prems(2) have ne: "g \<noteq> fn" by auto
    show ?thesis
    proof (cases "parse_entry g doc")
      case (Inl e)
      with Cons.prems(1) p True show ?thesis by simp
    next
      case (Inr res)
      obtain eo pr where res: "res = (eo, pr)" by (cases res)
      show ?thesis
      proof (cases eo)
        case None
        with Inr res p True Cons.prems have
          "main_loop entries (skipped_files @ [g]) (lg @ pr) files = Inr (entries', skipped', lg')"
          by simp
        from Cons.IH [OF this Cons.prems(2)] ne Cons.prems(3,4) show ?thesis by simp
      next
        case (Some entry)
        with Inr res have pe: "parse_entry g doc = Inr (Some entry, pr)" by simp
        from parse_entry_file [OF pe] ne have
          f: "dict_get entry (py ''file'') \<noteq> Some (JStr fn)" by simp
        from pe p True Cons.prems have
          "main_loop (entries @ [entry]) skipped_files (lg @ pr) files = Inr (entries', skipped', lg')"
          by simp
        from Cons.IH [OF this Cons.prems(2)] f Cons.prems(3,4) show ?thesis by auto
      qed
    qed
  qed
qed

lemma main_html:
  assumes "main dir = Inr r" and "\<not> endswith fn (py ''.html'')"
  shows "fn \<notin> set (skipped r) \<and> Some (JStr fn) \<notin> set (map (\<lambda>e. dict_get e (py ''file'')) (written r))"
proof -
  from assms(1) obtain entries skipped_files lg where
    l: "main_loop [] [] [] (sort_key fst dir) = Inr (entries, skipped_files, lg)" and
    r: "r = \<lparr>written = entries, skipped = skipped_files, printed = lg @ report entries skipped_files\<rparr>"
    by (auto simp: main_def split: sum.splits)
  from main_loop_html [OF l assms(2)] r show ?thesis by simp
qed

text \<open>
  C9: the result of the batch is that of the batch over the \<open>.html\<close> files alone, so no
  other file is parsed; and when the batch returns, the name of a file not ending in
  \<open>.html\<close> is neither among the skipped names nor the \<open>file\<close> of a written entry.
\<close>

theorem main_only_html_files:
  "main dir = main (filter (\<lambda>(fn, doc). endswith fn (py ''.html'')) dir) \<and>
   (main dir = Inr r \<and> \<not> endswith fn (py ''.html'') \<longrightarrow>
      fn \<notin> set (skipped r) \<and>
      Some (JStr fn) \<notin> set (map (\<lambda>e. dict_get e (py ''file'')) (written r)))"
  using main_filter [of dir] main_html [of dir r fn] by blast

theorem main_only_html_files_witness:
  "main dir_mixed = Inr run_mixed \<and>
   \<not> endswith (py ''notes.txt'') (py ''.html'') \<and>
   main [(py ''b.html'', [tx ''moved'']), (py ''a.html'', page_hus)] = Inr run_mixed \<and>
   py ''notes.txt'' \<notin> set (skipped run_mixed) \<and>
   Some (JStr (py ''notes.txt'')) \<notin> set (map (\<lambda>e. dict_get e (py ''file'')) (written run_mixed))"
  using main_only_html_files [of dir_mixed run_mixed "py ''notes.txt''"] main_dir_mixed
  by (simp add: dir_mixed_def endswith_def py_simps)

section \<open>Expression containers without match span (C10)\<close>









end
